theory Spec2Isabelle
  imports Main
begin

section \<open>Python values and exceptions\<close>

text \<open>
  The values that travel between the stages are the Python objects produced by
  \<^verbatim>\<open>json.loads\<close>: \<^verbatim>\<open>None\<close>, booleans, integers, floats, strings, lists and
  dictionaries with string keys. A finite float is kept as mantissa and binary exponent.
  A dictionary is an association list, read with \<open>map_of\<close> (the first binding of a key
  is the one that counts). Strings are ASCII text, one \<open>char\<close> per character.
\<close>

datatype json =
    JNull
  | JBool bool
  | JInt int
  | JFloat int int
  | JStr string
  | JList "json list"
  | JDict "(string \<times> json) list"

text \<open>
  The exceptions are the subclasses of \<^verbatim>\<open>Exception\<close> that the code meets, each with the
  text that \<^verbatim>\<open>str(e)\<close> gives. \<open>OtherError\<close> stands for every other subclass of
  \<^verbatim>\<open>Exception\<close> (network faults, \<^verbatim>\<open>ValueError\<close>, ...).
\<close>

datatype exn_kind =
  JSONDecodeError | ImportError | AttributeError | TypeError | IndexError | RecursionError
  | OtherError

datatype py_exn = PyExn (exn_kind: exn_kind) (exn_str: string)

text \<open>Sequencing of statements that may raise: the first exception ends the block.\<close>

definition then_do :: "py_exn + 'a \<Rightarrow> ('a \<Rightarrow> py_exn + 'b) \<Rightarrow> py_exn + 'b" where
  "then_do m f = (case m of Inl e \<Rightarrow> Inl e | Inr v \<Rightarrow> f v)"

text \<open>
  \<^verbatim>\<open>try: body except ...\<close>: the handler says, for an exception, what the matching
  \<^verbatim>\<open>except\<close> clause evaluates to, or \<open>None\<close> when no clause matches and the exception
  propagates.
\<close>

definition try_except :: "py_exn + 'a \<Rightarrow> (py_exn \<Rightarrow> (py_exn + 'a) option) \<Rightarrow> py_exn + 'a" where
  "try_except body handler =
     (case body of
        Inr v \<Rightarrow> Inr v
      | Inl e \<Rightarrow> (case handler e of Some r \<Rightarrow> r | None \<Rightarrow> Inl e))"

text \<open>Truth value of an object in a condition (\<^verbatim>\<open>if x:\<close>).\<close>

fun truthy :: "json \<Rightarrow> bool" where
  "truthy JNull = False"
| "truthy (JBool b) = b"
| "truthy (JInt i) = (i \<noteq> 0)"
| "truthy (JFloat m e) = (m \<noteq> 0)"
| "truthy (JStr s) = (s \<noteq> [])"
| "truthy (JList xs) = (xs \<noteq> [])"
| "truthy (JDict kvs) = (kvs \<noteq> [])"

text \<open>
  \<^verbatim>\<open>obj.get(key, default)\<close>: only a dictionary has the method; on any other object
  the attribute lookup raises \<^verbatim>\<open>AttributeError\<close>.
\<close>

fun dict_get :: "json \<Rightarrow> string \<Rightarrow> json \<Rightarrow> py_exn + json" where
  "dict_get (JDict kvs) k d = Inr (case map_of kvs k of Some v \<Rightarrow> v | None \<Rightarrow> d)"
| "dict_get _ k d = Inl (PyExn AttributeError ''object has no attribute get'')"

section \<open>String operations\<close>

definition nl :: string where
  "nl = [CHR 0x0A]"

fun startswith :: "string \<Rightarrow> string \<Rightarrow> bool" where
  "startswith s [] = True"
| "startswith [] (p # ps) = False"
| "startswith (c # cs) (p # ps) = (c = p \<and> startswith cs ps)"

text \<open>
  \<^verbatim>\<open>s.find(sub, start)\<close>: the lowest index at or after \<open>start\<close> where \<open>sub\<close> occurs,
  or \<open>-1\<close>. \<open>find_from\<close> scans a suffix whose first character has index \<open>k\<close>.
\<close>

fun find_from :: "string \<Rightarrow> string \<Rightarrow> nat \<Rightarrow> int" where
  "find_from [] sub k = (if sub = [] then int k else - 1)"
| "find_from (c # cs) sub k =
     (if startswith (c # cs) sub then int k else find_from cs sub (Suc k))"

definition find :: "string \<Rightarrow> string \<Rightarrow> nat \<Rightarrow> int" where
  "find s sub start = (if length s < start then - 1 else find_from (drop start s) sub start)"

text \<open>\<^verbatim>\<open>sub in s\<close>.\<close>

definition contains :: "string \<Rightarrow> string \<Rightarrow> bool" where
  "contains s sub = (find s sub 0 \<noteq> - 1)"

text \<open>
  \<^verbatim>\<open>s[i:j]\<close>: a negative index counts from the end, and both are clamped to the
  string; the slice is empty when the bounds cross.
\<close>

definition slice_index :: "nat \<Rightarrow> int \<Rightarrow> nat" where
  "slice_index n i = (if i < 0 then nat (max 0 (int n + i)) else min n (nat i))"

definition slice :: "string \<Rightarrow> int \<Rightarrow> int \<Rightarrow> string" where
  "slice s i j =
     (let a = slice_index (length s) i; b = slice_index (length s) j
      in take (b - a) (drop a s))"

text \<open>
  \<^verbatim>\<open>s.strip()\<close>: the ASCII characters for which \<^verbatim>\<open>str.isspace\<close> holds are tab, line
  feed, vertical tab, form feed, carriage return, the four separators 0x1C to 0x1F and
  the space.
\<close>

definition is_space :: "char \<Rightarrow> bool" where
  "is_space c = (c \<in> set [CHR 0x09, CHR 0x0A, CHR 0x0B, CHR 0x0C, CHR 0x0D,
                           CHR 0x1C, CHR 0x1D, CHR 0x1E, CHR 0x1F, CHR 0x20])"

definition strip :: "string \<Rightarrow> string" where
  "strip s = rev (dropWhile is_space (rev (dropWhile is_space s)))"

section \<open>The JSON reader\<close>

text \<open>
  \<^verbatim>\<open>json.loads\<close> belongs to the Python library. Its first step is fixed here: leading
  blanks (space, tab, line feed, carriage return) are skipped, and a text whose next
  character cannot begin a JSON value is rejected with \<^verbatim>\<open>JSONDecodeError\<close>. What it does
  on the other texts is the parameter \<open>scan\<close>.
\<close>

definition json_ws :: "char \<Rightarrow> bool" where
  "json_ws c = (c \<in> set [CHR 0x20, CHR 0x09, CHR 0x0A, CHR 0x0D])"

definition starts_value :: "string \<Rightarrow> bool" where
  "starts_value t =
     (case t of
        [] \<Rightarrow> False
      | c # _ \<Rightarrow>
          c \<in> set ''\"{[-0123456789''
          \<or> startswith t ''null'' \<or> startswith t ''true'' \<or> startswith t ''false''
          \<or> startswith t ''NaN'' \<or> startswith t ''Infinity'')"

definition json_loads :: "(string \<Rightarrow> py_exn + json) \<Rightarrow> string \<Rightarrow> py_exn + json" where
  "json_loads scan s =
     (if starts_value (dropWhile json_ws s) then scan s
      else Inl (PyExn JSONDecodeError ''Expecting value''))"

section \<open>The structured-output parser\<close>

text \<open>
  \<^verbatim>\<open>BaseLLMProvider.parse_structured_output\<close>. The parameter \<open>loads\<close> is
  \<^verbatim>\<open>json.loads\<close>. Only \<^verbatim>\<open>JSONDecodeError\<close> is caught.
\<close>

definition raw_sentinel :: "string \<Rightarrow> json" where
  "raw_sentinel response_text = JDict [(''raw'', JStr response_text)]"

definition fenced_slice :: "string \<Rightarrow> string" where
  "fenced_slice response_text =
     (let start = find response_text ''```json'' 0 + 7;
          stop = find response_text ''```'' (nat start)
      in strip (slice response_text start stop))"

definition parse_structured_output ::
  "(string \<Rightarrow> py_exn + json) \<Rightarrow> string \<Rightarrow> py_exn + json" where
  "parse_structured_output loads response_text =
     try_except
       (if contains response_text ''```json''
        then loads (fenced_slice response_text)
        else loads response_text)
       (\<lambda>e. if exn_kind e = JSONDecodeError
             then Some (Inr (raw_sentinel response_text)) else None)"

text \<open>The text that is handed to \<^verbatim>\<open>json.loads\<close>: the fenced slice, or the whole response.\<close>

definition json_candidate :: "string \<Rightarrow> string" where
  "json_candidate response_text =
     (if contains response_text ''```json'' then fenced_slice response_text
      else response_text)"

text \<open>
  Samples of the library on the three literal atoms, used to run the program on examples:
  \<^verbatim>\<open>json.loads\<close> of \<^verbatim>\<open>null\<close>, \<^verbatim>\<open>true\<close> and \<^verbatim>\<open>false\<close>, and \<^verbatim>\<open>json.dumps\<close> of
  \<^verbatim>\<open>None\<close>, \<^verbatim>\<open>True\<close> and \<^verbatim>\<open>False\<close>. They are not used on other arguments.
\<close>

definition scan_atom :: "string \<Rightarrow> py_exn + json" where
  "scan_atom t =
     (if t = ''null'' then Inr JNull
      else if t = ''true'' then Inr (JBool True)
      else if t = ''false'' then Inr (JBool False)
      else Inl (PyExn JSONDecodeError ''Expecting value''))"

text \<open>
  \<^verbatim>\<open>json.loads\<close> on the text of 2000 opening brackets, where Python's decoder exceeds
  the recursion limit; on the other texts it is the sample above.
\<close>

definition scan_nested :: "string \<Rightarrow> py_exn + json" where
  "scan_nested t =
     (if t = replicate 2000 (CHR ''['')
      then Inl (PyExn RecursionError
                 ''maximum recursion depth exceeded while decoding a JSON array from a unicode string'')
      else scan_atom t)"

definition dumps_atom :: "json \<Rightarrow> py_exn + string" where
  "dumps_atom v =
     (case v of
        JNull \<Rightarrow> Inr ''null''
      | JBool b \<Rightarrow> Inr (if b then ''true'' else ''false'')
      | _ \<Rightarrow> Inl (PyExn TypeError ''not an atom''))"

section \<open>The presentation renderer\<close>

text \<open>
  \<^verbatim>\<open>s.upper()\<close> on ASCII text, and the methods of \<^verbatim>\<open>str\<close> that the renderer calls
  on values read from the model's reply: an object that is not a string has neither
  method, and the attribute lookup raises \<^verbatim>\<open>AttributeError\<close>.
\<close>

definition upper_char :: "char \<Rightarrow> char" where
  "upper_char c =
     (case map_of (zip ''abcdefghijklmnopqrstuvwxyz'' ''ABCDEFGHIJKLMNOPQRSTUVWXYZ'') c of
        Some u \<Rightarrow> u
      | None \<Rightarrow> c)"

definition upper :: "string \<Rightarrow> string" where
  "upper s = map upper_char s"

fun str_upper :: "json \<Rightarrow> py_exn + string" where
  "str_upper (JStr s) = Inr (upper s)"
| "str_upper _ = Inl (PyExn AttributeError ''object has no attribute upper'')"

fun str_strip :: "json \<Rightarrow> py_exn + string" where
  "str_strip (JStr s) = Inr (strip s)"
| "str_strip _ = Inl (PyExn AttributeError ''object has no attribute strip'')"

text \<open>
  A value inside an f-string: a string is inserted as it is; for any other object the
  text is what Python's \<^verbatim>\<open>str\<close> gives, the parameter \<open>str_of\<close>.
\<close>

definition fmt :: "(json \<Rightarrow> string) \<Rightarrow> json \<Rightarrow> string" where
  "fmt str_of v = (case v of JStr s \<Rightarrow> s | _ \<Rightarrow> str_of v)"

text \<open>
  \<^verbatim>\<open>for x in obj\<close>: a list gives its elements, a string its characters, a dictionary
  its keys; the other objects are not iterable (\<^verbatim>\<open>TypeError\<close>).
\<close>

fun py_iter :: "json \<Rightarrow> py_exn + json list" where
  "py_iter (JList xs) = Inr xs"
| "py_iter (JStr s) = Inr (map (\<lambda>c. JStr [c]) s)"
| "py_iter (JDict kvs) = Inr (map (\<lambda>kv. JStr (fst kv)) kvs)"
| "py_iter _ = Inl (PyExn TypeError ''object is not iterable'')"

text \<open>
  \<^verbatim>\<open>SmartGeminiProvider._format_solution_markdown\<close>, section by section; each function
  gives the text that its section appends to \<^verbatim>\<open>markdown_out\<close>.
\<close>

definition algorithm_steps_section :: "(json \<Rightarrow> string) \<Rightarrow> json \<Rightarrow> py_exn + string" where
  "algorithm_steps_section str_of sol =
     then_do (dict_get sol ''algorithm_steps'' (JStr '''')) (\<lambda>steps.
       if truthy steps
       then Inr (''### Algorithm Steps'' @ nl @ fmt str_of steps @ nl @ nl)
       else then_do (dict_get sol ''reasoning'' JNull) (\<lambda>reasoning.
         if truthy reasoning
         then Inr (''### Algorithm Steps'' @ nl @ fmt str_of reasoning @ nl @ nl)
         else Inr ''''))"

definition edge_cases_section :: "(json \<Rightarrow> string) \<Rightarrow> json \<Rightarrow> py_exn + string" where
  "edge_cases_section str_of sol =
     then_do (dict_get sol ''edge_cases'' (JList [])) (\<lambda>edge_cases.
       if truthy edge_cases
       then then_do (py_iter edge_cases) (\<lambda>ecs.
              Inr (''### Edge Cases'' @ nl
                   @ concat (map (\<lambda>ec. ''- '' @ fmt str_of ec @ nl) ecs) @ nl))
       else Inr '''')"

definition code_section :: "(json \<Rightarrow> string) \<Rightarrow> json \<Rightarrow> json \<Rightarrow> py_exn + string" where
  "code_section str_of sol problem_info =
     then_do (dict_get sol ''code'' (JStr '''')) (\<lambda>code0.
     then_do (if \<not> truthy code0 then dict_get sol ''answer'' (JStr '''') else Inr code0) (\<lambda>code.
       if truthy code
       then then_do (dict_get problem_info ''details'' (JDict [])) (\<lambda>details.
            then_do (dict_get details ''language'' (JStr ''python'')) (\<lambda>lang.
            then_do (str_strip code) (\<lambda>stripped.
              let code' = (if \<not> startswith stripped ''```''
                           then JStr (''``` '' @ fmt str_of lang @ nl @ fmt str_of code @ nl @ ''```'')
                           else code)
              in Inr (''### Code Section'' @ nl @ fmt str_of code' @ nl @ nl))))
       else Inr ''''))"

definition complexity_section :: "(json \<Rightarrow> string) \<Rightarrow> json \<Rightarrow> py_exn + string" where
  "complexity_section str_of sol =
     then_do (dict_get sol ''time_complexity'' JNull) (\<lambda>tc.
     then_do (dict_get sol ''space_complexity'' JNull) (\<lambda>sc.
       if truthy tc \<or> truthy sc
       then Inr (''### Complexity'' @ nl
                 @ (if truthy tc then ''- **Time**: '' @ fmt str_of tc @ nl else '''')
                 @ (if truthy sc then ''- **Space**: '' @ fmt str_of sc @ nl else '''')
                 @ nl)
       else Inr ''''))"

definition answer_sections :: "(json \<Rightarrow> string) \<Rightarrow> json \<Rightarrow> py_exn + string" where
  "answer_sections str_of sol =
     then_do (dict_get sol ''answer'' (JStr '''')) (\<lambda>answer.
     then_do (dict_get sol ''reasoning'' (JStr '''')) (\<lambda>reasoning.
       Inr ((if truthy reasoning
             then ''### Analysis'' @ nl @ fmt str_of reasoning @ nl @ nl else '''')
            @ (if truthy answer
               then ''### Solution'' @ nl @ fmt str_of answer else ''''))))"

definition format_solution_markdown ::
  "(json \<Rightarrow> string) \<Rightarrow> json \<Rightarrow> json \<Rightarrow> py_exn + string" where
  "format_solution_markdown str_of solution_data problem_info =
     then_do (dict_get solution_data ''solution'' (JDict [])) (\<lambda>sol.
     then_do (dict_get problem_info ''problem_type'' (JStr ''general'')) (\<lambda>ptype.
     then_do (str_upper ptype) (\<lambda>badge.
       let markdown_out = ''**Type:** `'' @ badge @ ''`'' @ nl @ nl
       in if ptype = JStr ''coding''
          then then_do (algorithm_steps_section str_of sol) (\<lambda>s1.
               then_do (edge_cases_section str_of sol) (\<lambda>s2.
               then_do (code_section str_of sol problem_info) (\<lambda>s3.
               then_do (complexity_section str_of sol) (\<lambda>s4.
                 Inr (markdown_out @ s1 @ s2 @ s3 @ s4)))))
          else then_do (answer_sections str_of sol) (\<lambda>s.
                 Inr (markdown_out @ s)))))"

section \<open>The compact context encoder\<close>

text \<open>
  \<^verbatim>\<open>encode_toon\<close> and \<^verbatim>\<open>decode_toon\<close>. The package \<^verbatim>\<open>toon_format\<close> is not part of the
  program: \<open>import_encode\<close> and \<open>import_decode\<close> are the outcome of the import statement,
  an exception or the imported function. \<open>dumps\<close> is \<^verbatim>\<open>json.dumps(data, indent=2)\<close> and
  \<open>loads\<close> is \<^verbatim>\<open>json.loads\<close>. Python's \<^verbatim>\<open>None\<close> is \<open>JNull\<close>.
\<close>

definition encode_toon ::
  "py_exn + (json \<Rightarrow> py_exn + string) \<Rightarrow> (json \<Rightarrow> py_exn + string) \<Rightarrow> json
     \<Rightarrow> py_exn + string" where
  "encode_toon import_encode dumps data =
     try_except
       (then_do import_encode (\<lambda>encode. encode data))
       (\<lambda>e. if exn_kind e = ImportError then Some (dumps data) else Some (dumps data))"

definition decode_toon ::
  "py_exn + (string \<Rightarrow> py_exn + json) \<Rightarrow> (string \<Rightarrow> py_exn + json) \<Rightarrow> string
     \<Rightarrow> py_exn + json" where
  "decode_toon import_decode loads toon_str =
     try_except
       (then_do import_decode (\<lambda>decode. decode toon_str))
       (\<lambda>e. if exn_kind e = ImportError then Some (loads toon_str) else Some (Inr JNull))"

section \<open>The providers\<close>

text \<open>
  An optional argument is \<open>None\<close> or a value; \<^verbatim>\<open>if x:\<close> holds for a value that is not
  empty. An image is an opaque handle.
\<close>

definition given :: "'a list option \<Rightarrow> bool" where
  "given x = (case x of None \<Rightarrow> False | Some xs \<Rightarrow> xs \<noteq> [])"

definition items :: "'a list option \<Rightarrow> 'a list" where
  "items x = (case x of None \<Rightarrow> [] | Some xs \<Rightarrow> xs)"

datatype image = Image nat

record reply =
  response :: string
  metadata :: "(string \<times> json) list"

definition error_reply :: "py_exn \<Rightarrow> reply" where
  "error_reply e =
     \<lparr>response = ''Error: '' @ exn_str e, metadata = [(''error'', JStr (exn_str e))]\<rparr>"


definition error_chunk :: "string list \<times> py_exn option \<Rightarrow> string list \<times> py_exn option" where
  "error_chunk run =
     (case snd run of
        None \<Rightarrow> run
      | Some e \<Rightarrow> (fst run @ [nl @ nl @ ''Error: '' @ exn_str e], None))"

definition schema_instruction :: "(json \<Rightarrow> string) \<Rightarrow> json \<Rightarrow> string" where
  "schema_instruction str_of json_schema =
     nl @ nl @ ''Respond ONLY with valid JSON matching this schema:'' @ nl
     @ ''```json'' @ nl @ fmt str_of json_schema @ nl @ ''```''"

subsection \<open>Gemini\<close>

text \<open>
  The backend is \<^verbatim>\<open>genai.upload_file\<close> and the two forms of
  \<^verbatim>\<open>model.generate_content\<close>; reading \<^verbatim>\<open>response.text\<close> may raise as well.
\<close>

datatype part = PText string | PImage image | PFile string

record gemini_response =
  response_text :: "py_exn + string"
  candidates :: "string list"

record gemini_model =
  upload_file :: "string \<Rightarrow> py_exn + part"
  generate_content :: "part list \<Rightarrow> py_exn + gemini_response"
  generate_content_stream :: "part list \<Rightarrow> py_exn + (py_exn + string) list"

definition gemini_parts ::
  "gemini_model \<Rightarrow> string \<Rightarrow> image list option \<Rightarrow> string option \<Rightarrow> string option
     \<Rightarrow> py_exn + part list" where
  "gemini_parts m text images audio_file system_prompt =
     (let parts =
            (if given system_prompt
             then [PText (''System instructions: '' @ items system_prompt @ nl @ nl)] else [])
            @ (if text \<noteq> [] then [PText text] else [])
            @ (if given images then map PImage (items images) else [])
      in if given audio_file
         then then_do (upload_file m (items audio_file)) (\<lambda>audio_part.
                Inr (parts @ [audio_part]))
         else Inr parts)"

definition gemini_request ::
  "gemini_model \<Rightarrow> string \<Rightarrow> string \<Rightarrow> image list option \<Rightarrow> string option \<Rightarrow> string option
     \<Rightarrow> py_exn + reply" where
  "gemini_request m model_name text images audio_file system_prompt =
     then_do (gemini_parts m text images audio_file system_prompt) (\<lambda>parts.
     then_do (generate_content m parts) (\<lambda>r.
     then_do (response_text r) (\<lambda>t.
       Inr \<lparr>response = t,
            metadata = [(''model'', JStr model_name),
                        (''finish_reason'',
                         case candidates r of [] \<Rightarrow> JNull | c # _ \<Rightarrow> JStr c)]\<rparr>)))"

definition gemini_send_message ::
  "gemini_model \<Rightarrow> string \<Rightarrow> string \<Rightarrow> image list option \<Rightarrow> string option \<Rightarrow> string option
     \<Rightarrow> py_exn + reply" where
  "gemini_send_message m model_name text images audio_file system_prompt =
     try_except (gemini_request m model_name text images audio_file system_prompt)
       (\<lambda>e. Some (Inr (error_reply e)))"



definition gemini_json_request ::
  "(json \<Rightarrow> string) \<Rightarrow> (string \<Rightarrow> py_exn + json) \<Rightarrow> gemini_model \<Rightarrow> string \<Rightarrow> json
     \<Rightarrow> image list option \<Rightarrow> py_exn + json" where
  "gemini_json_request str_of loads m text json_schema images =
     (let parts = [PText (text @ schema_instruction str_of json_schema)]
                  @ (if given images then map PImage (items images) else [])
      in then_do (generate_content m parts) (\<lambda>r.
         then_do (response_text r) (\<lambda>t.
           parse_structured_output loads t)))"

definition gemini_send_with_json_output ::
  "(json \<Rightarrow> string) \<Rightarrow> (string \<Rightarrow> py_exn + json) \<Rightarrow> gemini_model \<Rightarrow> string \<Rightarrow> json
     \<Rightarrow> image list option \<Rightarrow> py_exn + json" where
  "gemini_send_with_json_output str_of loads m text json_schema images =
     try_except (gemini_json_request str_of loads m text json_schema images)
       (\<lambda>e. Some (Inr (JDict [(''error'', JStr (exn_str e))])))"

subsection \<open>Claude\<close>













section \<open>The reasoning pipeline\<close>

text \<open>
  \<^verbatim>\<open>SmartGeminiProvider\<close>. The prompt texts and the schema descriptors are the literals
  of the source.
\<close>

definition system_instruction :: string where
  "system_instruction =
     nl @ ''        You are an expert analyst. Analyze the provided image(s).'' @
       nl @ ''        '' @ nl @ ''        STEP 1: CLASSIFY THE PROBLEM TYPE'' @
       nl @ ''        - '' @ [CHR 0x27] @ ''coding'' @ [CHR 0x27] @
       '': Code snippets, IDEs, programming errors.'' @ nl @ ''        - '' @
       [CHR 0x27] @ ''multiple_choice'' @ [CHR 0x27] @
       '': Quizzes with options.'' @ nl @ ''        - '' @ [CHR 0x27] @ ''math'' @
       [CHR 0x27] @ '': Equations, calculus, geometry.'' @ nl @ ''        - '' @
       [CHR 0x27] @ ''general'' @ [CHR 0x27] @ '': Text questions, logic, etc.'' @
       nl @ ''        '' @ nl @ ''        STEP 2: EXTRACT DATA'' @ nl @
       ''        Return a valid JSON object with:'' @ nl @ ''        {'' @ nl @
       ''          '' @ [CHR 0x22] @ ''problem_type'' @ [CHR 0x22] @ '': '' @
       [CHR 0x22] @ ''...'' @ [CHR 0x22] @ '','' @ nl @ ''          '' @
       [CHR 0x22] @ ''problem_statement'' @ [CHR 0x22] @ '': '' @ [CHR 0x22] @
       ''Full extracted text of the problem'' @ [CHR 0x22] @ '','' @ nl @
       ''          '' @ [CHR 0x22] @ ''details'' @ [CHR 0x22] @ '': {'' @ nl @
       ''             '' @ [CHR 0x22] @ ''language'' @ [CHR 0x22] @ '': '' @
       [CHR 0x22] @ ''python/js/etc (if coding)'' @ [CHR 0x22] @ '','' @ nl @
       ''             '' @ [CHR 0x22] @ ''code_snippet'' @ [CHR 0x22] @ '': '' @
       [CHR 0x22] @ ''extracted code (if coding)'' @ [CHR 0x22] @ '','' @ nl @
       ''             '' @ [CHR 0x22] @ ''options'' @ [CHR 0x22] @
       '': [] (if multiple choice),'' @ nl @ ''             '' @ [CHR 0x22] @
       ''context'' @ [CHR 0x22] @ '': '' @ [CHR 0x22] @ ''...'' @ [CHR 0x22] @
       '' '' @ nl @ ''          }'' @ nl @ ''        }'' @ nl @ ''        ''"

definition extraction_schema :: json where
  "extraction_schema =
     JDict [(''type'', JStr ''object''), (''properties'', JDict [(''problem_type'',
       JDict [(''type'', JStr ''string''), (''enum'', JList [JStr ''coding'', JStr
       ''multiple_choice'', JStr ''math'', JStr ''general''])]), (''problem_statement'',
       JDict [(''type'', JStr ''string'')]), (''details'', JDict [(''type'', JStr
       ''object'')])]), (''required'', JList [JStr ''problem_type'', JStr
       ''problem_statement'', JStr ''details''])]"

definition coding_role_prompt :: string where
  "coding_role_prompt =
     ''You are a Senior Software Engineer. Provide an optimal code solution.''"

definition coding_output_desc :: string where
  "coding_output_desc =
     ''Return JSON with these exact keys:'' @ nl @ ''- '' @ [CHR 0x27] @
       ''algorithm_steps'' @ [CHR 0x27] @
       '': Clear, numbered steps of the algorithm.'' @ nl @ ''- '' @ [CHR 0x27] @
       ''code'' @ [CHR 0x27] @
       '': The full solution code (no markdown fences in JSON).'' @ nl @ ''- '' @
       [CHR 0x27] @ ''time_complexity'' @ [CHR 0x27] @
       '': Big O notation with brief explanation.'' @ nl @ ''- '' @ [CHR 0x27] @
       ''space_complexity'' @ [CHR 0x27] @
       '': Big O notation with brief explanation.'' @ nl @ ''- '' @ [CHR 0x27] @
       ''edge_cases'' @ [CHR 0x27] @ '': A list of edge cases considered.'' @ nl"

definition coding_solution_schema :: json where
  "coding_solution_schema =
     JDict [(''type'', JStr ''object''), (''properties'', JDict [(''solution'', JDict
       [(''type'', JStr ''object''), (''properties'', JDict [(''algorithm_steps'', JDict
       [(''type'', JStr ''string'')]), (''code'', JDict [(''type'', JStr ''string'')]),
       (''time_complexity'', JDict [(''type'', JStr ''string'')]),
       (''space_complexity'', JDict [(''type'', JStr ''string'')]), (''edge_cases'',
       JDict [(''type'', JStr ''array''), (''items'', JDict [(''type'', JStr
       ''string'')])])]), (''required'', JList [JStr ''algorithm_steps'', JStr ''code'',
       JStr ''time_complexity'', JStr ''space_complexity'', JStr ''edge_cases''])])])]"

definition answer_role_prompt :: string where
  "answer_role_prompt =
     ''You are a helpful expert assistant.''"

definition answer_output_desc :: string where
  "answer_output_desc =
     ''Return JSON: { '' @ [CHR 0x27] @ ''solution'' @ [CHR 0x27] @ '': { '' @
       [CHR 0x27] @ ''answer'' @ [CHR 0x27] @ '': '' @ [CHR 0x27] @ ''...'' @
       [CHR 0x27] @ '', '' @ [CHR 0x27] @ ''reasoning'' @ [CHR 0x27] @ '': '' @
       [CHR 0x27] @ ''...'' @ [CHR 0x27] @ '' } }''"

definition answer_solution_schema :: json where
  "answer_solution_schema =
     JDict [(''type'', JStr ''object''), (''properties'', JDict [(''solution'', JDict
       [(''type'', JStr ''object''), (''properties'', JDict [(''answer'', JDict
       [(''type'', JStr ''string'')]), (''reasoning'', JDict [(''type'', JStr
       ''string'')])]), (''required'', JList [JStr ''answer'', JStr ''reasoning''])])])]"

text \<open>
  The two stages call \<^verbatim>\<open>self.send_with_json_output\<close>; the method is the parameter
  \<open>schema_call\<close> (text, schema, images). \<open>str_of\<close>, \<open>import_encode\<close> and \<open>dumps\<close> are as
  above.
\<close>

definition step_classify_and_extract ::
  "(string \<Rightarrow> json \<Rightarrow> image list option \<Rightarrow> py_exn + json) \<Rightarrow> string \<Rightarrow> image list option
     \<Rightarrow> py_exn + json" where
  "step_classify_and_extract schema_call user_prompt images =
     schema_call (system_instruction @ nl @ nl @ ''User Note: '' @ user_prompt)
       extraction_schema images"

definition solution_prompt :: "string \<Rightarrow> string \<Rightarrow> string \<Rightarrow> string" where
  "solution_prompt role_prompt context_str output_desc =
     nl @ ''        '' @ role_prompt
     @ nl @ ''        '' @ nl @ ''        PROBLEM CONTEXT (TOON Format):'' @ nl @ ''        ''
     @ context_str
     @ nl @ ''        '' @ nl @ ''        TASK:'' @ nl @ ''        Solve the problem above.''
     @ nl @ ''        '' @ output_desc
     @ nl @ ''        ''"

definition step_generate_solution ::
  "py_exn + (json \<Rightarrow> py_exn + string) \<Rightarrow> (json \<Rightarrow> py_exn + string)
     \<Rightarrow> (string \<Rightarrow> json \<Rightarrow> image list option \<Rightarrow> py_exn + json) \<Rightarrow> json \<Rightarrow> py_exn + json" where
  "step_generate_solution import_encode dumps schema_call problem_info =
     then_do (dict_get problem_info ''problem_type'' (JStr ''general'')) (\<lambda>ptype.
     then_do (encode_toon import_encode dumps problem_info) (\<lambda>context_str.
       if ptype = JStr ''coding''
       then schema_call (solution_prompt coding_role_prompt context_str coding_output_desc)
              coding_solution_schema None
       else schema_call (solution_prompt answer_role_prompt context_str answer_output_desc)
              answer_solution_schema None))"

text \<open>
  \<^verbatim>\<open>SmartGeminiProvider.send_message\<close>; \<open>plain\<close> is the call
  \<^verbatim>\<open>super().send_message(text, images, audio_file, system_prompt)\<close>.
\<close>

definition smart_pipeline ::
  "(json \<Rightarrow> string) \<Rightarrow> py_exn + (json \<Rightarrow> py_exn + string) \<Rightarrow> (json \<Rightarrow> py_exn + string)
     \<Rightarrow> (string \<Rightarrow> json \<Rightarrow> image list option \<Rightarrow> py_exn + json) \<Rightarrow> string \<Rightarrow> string
     \<Rightarrow> image list option \<Rightarrow> py_exn + reply" where
  "smart_pipeline str_of import_encode dumps schema_call model_name text images =
     then_do (step_classify_and_extract schema_call text images) (\<lambda>problem_info.
     then_do (step_generate_solution import_encode dumps schema_call problem_info)
       (\<lambda>solution_data.
     then_do (format_solution_markdown str_of solution_data problem_info) (\<lambda>final_markdown.
       Inr \<lparr>response = final_markdown,
            metadata = [(''model'', JStr model_name),
                        (''problem_info'', problem_info),
                        (''raw_solution'', solution_data)]\<rparr>)))"

definition smart_send_message_with ::
  "(json \<Rightarrow> string) \<Rightarrow> py_exn + (json \<Rightarrow> py_exn + string) \<Rightarrow> (json \<Rightarrow> py_exn + string)
     \<Rightarrow> (string \<Rightarrow> json \<Rightarrow> image list option \<Rightarrow> py_exn + json) \<Rightarrow> (py_exn + reply)
     \<Rightarrow> string \<Rightarrow> string \<Rightarrow> image list option \<Rightarrow> py_exn + reply" where
  "smart_send_message_with str_of import_encode dumps schema_call plain model_name text images =
     (if \<not> given images then plain
      else try_except
             (smart_pipeline str_of import_encode dumps schema_call model_name text images)
             (\<lambda>e. Some plain))"

text \<open>
  The provider as it is wired: the schema call is the Gemini provider's
  \<^verbatim>\<open>send_with_json_output\<close>, the plain call its \<^verbatim>\<open>send_message\<close>.
\<close>

definition smart_send_message ::
  "(json \<Rightarrow> string) \<Rightarrow> (string \<Rightarrow> py_exn + json) \<Rightarrow> py_exn + (json \<Rightarrow> py_exn + string)
     \<Rightarrow> (json \<Rightarrow> py_exn + string) \<Rightarrow> gemini_model \<Rightarrow> string \<Rightarrow> string \<Rightarrow> image list option
     \<Rightarrow> string option \<Rightarrow> string option \<Rightarrow> py_exn + reply" where
  "smart_send_message str_of loads import_encode dumps m model_name text images audio_file
       system_prompt =
     smart_send_message_with str_of import_encode dumps
       (gemini_send_with_json_output str_of loads m)
       (gemini_send_message m model_name text images audio_file system_prompt)
       model_name text images"

section \<open>Sample libraries and backends\<close>

text \<open>
  Sample outcomes of the \<^verbatim>\<open>toon_format\<close> package, used to run the encoder and the
  decoder on examples: the package is missing, its functions raise, or its decoder
  returns the text as a string.
\<close>

definition failing_encode :: "json \<Rightarrow> py_exn + string" where
  "failing_encode data = Inl (PyExn OtherError ''cannot encode'')"

definition failing_decode :: "string \<Rightarrow> py_exn + json" where
  "failing_decode toon_str = Inl (PyExn OtherError ''cannot decode'')"

definition no_toon_format :: py_exn where
  "no_toon_format = PyExn ImportError ''No module named toon_format''"

definition echo_decode :: "string \<Rightarrow> py_exn + json" where
  "echo_decode toon_str = Inr (JStr toon_str)"

text \<open>
  Sample backends, used to run the providers on examples: every request fails with
  \<^verbatim>\<open>503 service unavailable\<close>, and the stream breaks after three chunks.
\<close>

definition unavailable :: py_exn where
  "unavailable = PyExn OtherError ''503 service unavailable''"









text \<open>
  A sample of Python's \<^verbatim>\<open>str\<close> on objects that are not strings, used where a prompt is
  built for a sample backend, which does not read it.
\<close>

definition str_sample :: "json \<Rightarrow> string" where
  "str_sample v =
     (case v of
        JNull \<Rightarrow> ''None''
      | JBool b \<Rightarrow> (if b then ''True'' else ''False'')
      | _ \<Rightarrow> ''{...}'')"

text \<open>
  Samples used to run the pipeline on examples: a schema call that raises; a backend that
  answers every request with one JSON text, whose \<open>problem_type\<close> is \<^verbatim>\<open>essay\<close>, and
  \<^verbatim>\<open>json.loads\<close> on that text; a TOON encoder that answers with a fixed text; and a
  schema call that classifies the problem as \<^verbatim>\<open>poem\<close> and then solves it.
\<close>

definition raising_schema_call :: "string \<Rightarrow> json \<Rightarrow> image list option \<Rightarrow> py_exn + json" where
  "raising_schema_call prompt json_schema images = Inl unavailable"

definition essay_text :: string where
  "essay_text =
     ''{\"problem_type\": \"essay\", \"solution\": {\"answer\": \"A\", \"reasoning\": \"R\"}}''"

definition essay_value :: json where
  "essay_value =
     JDict [(''problem_type'', JStr ''essay''),
            (''solution'', JDict [(''answer'', JStr ''A''), (''reasoning'', JStr ''R'')])]"

definition scan_essay :: "string \<Rightarrow> py_exn + json" where
  "scan_essay t =
     (if t = essay_text then Inr essay_value
      else Inl (PyExn JSONDecodeError ''Expecting value''))"

definition gemini_essay :: gemini_model where
  "gemini_essay =
     \<lparr>upload_file = (\<lambda>path. Inr (PFile path)),
      generate_content =
        (\<lambda>parts. Inr \<lparr>response_text = Inr essay_text, candidates = [''STOP'']\<rparr>),
      generate_content_stream = (\<lambda>parts. Inr [Inr essay_text])\<rparr>"

definition sample_encode :: "json \<Rightarrow> py_exn + string" where
  "sample_encode data = Inr ''context''"

definition poem_schema_call :: "string \<Rightarrow> json \<Rightarrow> image list option \<Rightarrow> py_exn + json" where
  "poem_schema_call prompt json_schema images =
     (if given images then Inr (JDict [(''problem_type'', JStr ''poem'')])
      else Inr (JDict [(''solution'', JDict [(''answer'', JStr ''42'')])]))"

section \<open>Properties of the parser\<close>

lemma parse_structured_output_candidate:
  "parse_structured_output loads s =
     (case loads (json_candidate s) of
        Inr v \<Rightarrow> Inr v
      | Inl e \<Rightarrow> if exn_kind e = JSONDecodeError then Inr (raw_sentinel s) else Inl e)"
  by (simp add: parse_structured_output_def json_candidate_def try_except_def
      split: sum.splits)

lemma json_loads_kind:
  assumes "\<forall>t e. scan t = Inl e \<longrightarrow> exn_kind e = JSONDecodeError"
    and "json_loads scan t = Inl e"
  shows "exn_kind e = JSONDecodeError"
  using assms by (auto simp: json_loads_def split: if_splits)

lemma not_json_rejected:
  "json_loads scan ''not json at all'' = Inl (PyExn JSONDecodeError ''Expecting value'')"
  by (simp add: json_loads_def starts_value_def json_ws_def)

lemma not_json_candidate: "json_candidate ''not json at all'' = ''not json at all''"
  by (simp add: json_candidate_def contains_def find_def)

text \<open>
  What the parser does when \<^verbatim>\<open>json.loads\<close> signals failure with \<^verbatim>\<open>JSONDecodeError\<close>
  only: it returns a value on every string; when the text handed to the reader is
  rejected the value is the sentinel \<open>{raw: text}\<close>; and on \<^verbatim>\<open>not json at all\<close> it returns
  \<open>{raw: "not json at all"}\<close>, whatever the reader does on well-started texts.
\<close>

theorem parse_structured_output_sentinel:
  assumes "\<forall>t e. scan t = Inl e \<longrightarrow> exn_kind e = JSONDecodeError"
  shows "(\<exists>v. parse_structured_output (json_loads scan) s = Inr v)
       \<and> ((\<exists>e. json_loads scan (json_candidate s) = Inl e) \<longrightarrow>
            parse_structured_output (json_loads scan) s = Inr (raw_sentinel s))
       \<and> parse_structured_output (json_loads scan) ''not json at all'' =
            Inr (JDict [(''raw'', JStr ''not json at all'')])"
proof (intro conjI impI)
  show "\<exists>v. parse_structured_output (json_loads scan) s = Inr v"
    using json_loads_kind [OF assms]
    by (cases "json_loads scan (json_candidate s)")
       (simp_all add: parse_structured_output_candidate)
next
  assume "\<exists>e. json_loads scan (json_candidate s) = Inl e"
  then obtain e where e: "json_loads scan (json_candidate s) = Inl e" ..
  from json_loads_kind [OF assms e] e
  show "parse_structured_output (json_loads scan) s = Inr (raw_sentinel s)"
    by (simp add: parse_structured_output_candidate)
next
  show "parse_structured_output (json_loads scan) ''not json at all'' =
            Inr (JDict [(''raw'', JStr ''not json at all'')])"
    by (simp add: parse_structured_output_candidate not_json_candidate not_json_rejected
        raw_sentinel_def)
qed

theorem parse_structured_output_sentinel_witness:
  "parse_structured_output (json_loads scan_atom) ''nulls'' = Inr (raw_sentinel ''nulls'')
   \<and> parse_structured_output (json_loads scan_atom) ''```json null ``` done'' = Inr JNull"
proof -
  have h: "\<forall>t e. scan_atom t = Inl e \<longrightarrow> exn_kind e = JSONDecodeError"
    by (auto simp: scan_atom_def split: if_splits)
  have c: "json_candidate ''nulls'' = ''nulls''"
    by (simp add: json_candidate_def contains_def find_def)
  have r: "\<exists>e. json_loads scan_atom (json_candidate ''nulls'') = Inl e"
    by (simp add: c json_loads_def scan_atom_def)
  have p: "parse_structured_output (json_loads scan_atom) ''```json null ``` done'' = Inr JNull"
    by (simp add: parse_structured_output_def contains_def find_def fenced_slice_def slice_def
        slice_index_def strip_def is_space_def json_loads_def starts_value_def json_ws_def
        scan_atom_def try_except_def)
  from parse_structured_output_sentinel [OF h, of "''nulls''"] r p
  show ?thesis by blast
qed

lemma parse_structured_output_propagates:
  assumes "loads (json_candidate s) = Inl e" and "exn_kind e \<noteq> JSONDecodeError"
  shows "parse_structured_output loads s = Inl e"
  using assms by (simp add: parse_structured_output_candidate)

lemma no_backtick_not_found:
  "CHR 0x60 \<notin> set s \<Longrightarrow> find_from s (CHR 0x60 # sub) k = - 1"
  by (induction s arbitrary: k) auto

lemma brackets_candidate:
  "json_candidate (replicate n (CHR ''['')) = replicate n (CHR ''['')"
  by (simp add: json_candidate_def contains_def find_def no_backtick_not_found)

lemma brackets_reach_scan:
  "json_loads scan (replicate (Suc n) (CHR ''['')) = scan (replicate (Suc n) (CHR ''[''))"
  by (simp add: json_loads_def json_ws_def starts_value_def)

text \<open>
  Claim C2 does not hold of the code. The handler of \<open>parse_structured_output\<close> catches
  \<^verbatim>\<open>json.JSONDecodeError\<close> and nothing else, so any other exception of \<^verbatim>\<open>json.loads\<close>
  leaves the parser. On the text of 2000 opening brackets \<^verbatim>\<open>json.loads\<close> raises
  \<^verbatim>\<open>RecursionError\<close>, and the parser raises it instead of returning \<open>{raw: text}\<close>.
\<close>

theorem parse_structured_output_raises_on_deep_nesting:
  "parse_structured_output (json_loads scan_nested) (replicate 2000 (CHR ''['')) =
     Inl (PyExn RecursionError
           ''maximum recursion depth exceeded while decoding a JSON array from a unicode string'')"
proof -
  have n: "(2000::nat) = Suc 1999" by simp
  have "json_loads scan_nested (replicate 2000 (CHR ''['')) = scan_nested (replicate 2000 (CHR ''[''))"
    unfolding n by (rule brackets_reach_scan)
  then have l: "json_loads scan_nested (json_candidate (replicate 2000 (CHR ''['')))
            = Inl (PyExn RecursionError
           ''maximum recursion depth exceeded while decoding a JSON array from a unicode string'')"
    by (simp only: brackets_candidate scan_nested_def if_True simp_thms)
  from l show ?thesis
    by (rule parse_structured_output_propagates
        [where loads = "json_loads scan_nested" and s = "replicate 2000 (CHR ''['')"]) simp
qed

section \<open>Searching in strings\<close>

lemma startswith_length: "startswith s p \<Longrightarrow> length p \<le> length s"
  by (induction s p rule: startswith.induct) auto

lemma startswith_append: "startswith s p \<Longrightarrow> startswith (s @ t) p"
  by (induction s p rule: startswith.induct) auto

lemma startswith_append_long: "length p \<le> length s \<Longrightarrow> startswith (s @ t) p = startswith s p"
  by (induction s p rule: startswith.induct) auto

lemma find_from_found:
  "find_from s sub k = int j \<Longrightarrow> length sub \<le> length s \<and> k \<le> j"
proof (induction s arbitrary: k)
  case Nil then show ?case by (auto split: if_splits)
next
  case (Cons c cs)
  show ?case
  proof (cases "startswith (c # cs) sub")
    case True with Cons.prems startswith_length [OF True] show ?thesis by simp
  next
    case False
    with Cons.prems have "find_from cs sub (Suc k) = int j" by simp
    from Cons.IH [OF this] show ?thesis by simp
  qed
qed

lemma find_from_append:
  "find_from s sub k = int j \<Longrightarrow> find_from (s @ t) sub k = int j"
proof (induction s arbitrary: k)
  case Nil
  then show ?case by (cases t) (auto split: if_splits)
next
  case (Cons c cs)
  show ?case
  proof (cases "startswith (c # cs) sub")
    case True
    with Cons.prems startswith_append [OF True, of t] show ?thesis by simp
  next
    case False
    with Cons.prems have f: "find_from cs sub (Suc k) = int j" by simp
    from find_from_found [OF f] have "length sub \<le> length (c # cs)" by simp
    from startswith_append_long [OF this, of t] False
    have "\<not> startswith ((c # cs) @ t) sub" by simp
    with Cons.IH [OF f] show ?thesis by simp
  qed
qed

lemma find_from_shift:
  "find_from s sub k = int j \<Longrightarrow> find_from s sub (k + d) = int (j + d)"
proof (induction s arbitrary: k)
  case Nil
  then show ?case by (auto split: if_splits)
next
  case (Cons c cs)
  show ?case
  proof (cases "startswith (c # cs) sub")
    case True
    with Cons.prems show ?thesis by simp
  next
    case False
    with Cons.prems have "find_from cs sub (Suc k) = int j" by simp
    from Cons.IH [OF this] False show ?thesis by simp
  qed
qed

lemma slice_between:
  "slice (a @ b @ c) (int (length a)) (int (length a + length b)) = b"
  by (simp add: slice_def slice_index_def Let_def)

text \<open>
  Claim C3. Let the first JSON fence marker of the response end the text \<open>pre\<close>, and let
  the first closing fence after it end the text \<open>body\<close>. Then exactly the stripped
  \<open>body\<close> is handed to \<^verbatim>\<open>json.loads\<close>, and the result is what the reader gives on it
  (the sentinel when the reader rejects it): the text \<open>tail\<close> after the closing fence has
  no influence on what is parsed.
\<close>

theorem parse_fenced_slice:
  assumes marker: "find (pre @ ''```json'') ''```json'' 0 = int (length pre)"
    and closing: "find (body @ ''```'') ''```'' 0 = int (length body)"
  shows "parse_structured_output loads (pre @ ''```json'' @ body @ ''```'' @ tail) =
         (case loads (strip body) of
            Inr v \<Rightarrow> Inr v
          | Inl e \<Rightarrow>
              if exn_kind e = JSONDecodeError
              then Inr (raw_sentinel (pre @ ''```json'' @ body @ ''```'' @ tail))
              else Inl e)"
proof -
  let ?text = "pre @ ''```json'' @ body @ ''```'' @ tail"
  from marker have "find_from (pre @ ''```json'') ''```json'' 0 = int (length pre)"
    by (simp add: find_def)
  from find_from_append [OF this, of "body @ ''```'' @ tail"]
  have m: "find ?text ''```json'' 0 = int (length pre)"
    by (simp add: find_def)
  then have c: "contains ?text ''```json''"
    by (simp add: contains_def)
  from closing have "find_from (body @ ''```'') ''```'' 0 = int (length body)"
    by (simp add: find_def)
  from find_from_shift [OF find_from_append [OF this, of tail], of "length pre + 7"]
  have "find_from (body @ ''```'' @ tail) ''```'' (length pre + 7) = int (length body + (length pre + 7))"
    by simp
  then have e: "find ?text ''```'' (length pre + 7) = int (length pre + 7 + length body)"
    by (simp add: find_def add.commute)
  have "slice ((pre @ ''```json'') @ body @ (''```'' @ tail)) (int (length (pre @ ''```json'')))
            (int (length (pre @ ''```json'') + length body)) = body"
    by (rule slice_between)
  then have s: "slice ?text (int (length pre) + 7) (int (length pre + 7 + length body)) = body"
    by (simp add: ac_simps)
  have n: "nat (int (length pre) + 7) = length pre + 7" by simp
  have f: "fenced_slice ?text = strip body"
    unfolding fenced_slice_def m Let_def n e s ..
  show ?thesis
    by (simp only: parse_structured_output_candidate json_candidate_def c f if_True)
qed

theorem parse_fenced_slice_witness:
  "parse_structured_output (json_loads scan_atom) (''Sure: '' @ ''```json'' @ '' null '' @ ''```'' @ '' and more'') = Inr JNull"
proof -
  have m: "find (''Sure: '' @ ''```json'') ''```json'' 0 = int (length ''Sure: '')"
    by (simp add: find_def)
  have c: "find ('' null '' @ ''```'') ''```'' 0 = int (length '' null '')"
    by (simp add: find_def)
  have l: "json_loads scan_atom (strip '' null '') = Inr JNull"
    by (simp add: strip_def is_space_def json_loads_def starts_value_def json_ws_def scan_atom_def)
  from parse_fenced_slice [OF m c, of "json_loads scan_atom" "'' and more''"] l
  show ?thesis by simp
qed

section \<open>Properties of the renderer\<close>

lemma then_do_Inr: "then_do (Inr v) f = f v"
  by (simp add: then_do_def)

lemma then_do_Inl: "then_do (Inl e) f = Inl e"
  by (simp add: then_do_def)

lemma upper_coding: "upper ''coding'' = ''CODING''"
  by (simp add: upper_def upper_char_def)

lemma upper_math: "upper ''math'' = ''MATH''"
  by (simp add: upper_def upper_char_def)

lemma fmt_JStr: "fmt str_of (JStr s) = s"
  by (simp add: fmt_def)

lemma algorithm_steps_present:
  assumes "map_of sol ''algorithm_steps'' = Some (JStr steps)" and "steps \<noteq> []"
  shows "algorithm_steps_section str_of (JDict sol) =
           Inr (''### Algorithm Steps'' @ nl @ steps @ nl @ nl)"
  using assms by (simp add: algorithm_steps_section_def then_do_Inr fmt_JStr)

lemma edge_cases_present:
  assumes "map_of sol ''edge_cases'' = Some (JList (map JStr ecs))" and "ecs \<noteq> []"
  shows "edge_cases_section str_of (JDict sol) =
           Inr (''### Edge Cases'' @ nl @ concat (map (\<lambda>ec. ''- '' @ ec @ nl) ecs) @ nl)"
  using assms by (simp add: edge_cases_section_def then_do_Inr fmt_JStr comp_def)

lemma code_present:
  assumes "map_of sol ''code'' = Some (JStr code)" and "code \<noteq> []"
    and "dict_get problem_info ''details'' (JDict []) = Inr (JDict details)"
  shows "code_section str_of (JDict sol) problem_info =
           Inr (''### Code Section'' @ nl
                @ (if startswith (strip code) ''```'' then code
                   else ''``` ''
                        @ fmt str_of (case map_of details ''language'' of
                                        Some l \<Rightarrow> l | None \<Rightarrow> JStr ''python'')
                        @ nl @ code @ nl @ ''```'')
                @ nl @ nl)"
  using assms by (simp add: code_section_def then_do_Inr fmt_JStr Let_def)

lemma complexity_present:
  assumes "map_of sol ''time_complexity'' = Some (JStr tc)" and "tc \<noteq> []"
    and "map_of sol ''space_complexity'' = Some (JStr sc)" and "sc \<noteq> []"
  shows "complexity_section str_of (JDict sol) =
           Inr (''### Complexity'' @ nl @ ''- **Time**: '' @ tc @ nl
                @ ''- **Space**: '' @ sc @ nl @ nl)"
  using assms by (simp add: complexity_section_def then_do_Inr fmt_JStr)

text \<open>
  Claim C4. For a problem of type \<^verbatim>\<open>coding\<close> whose details are a mapping (or absent) and
  a solution with the five coding fields non-empty, the renderer returns the badge, then
  Algorithm Steps, Edge Cases, Code Section and Complexity, in this order and with
  nothing else. The code is emitted as it is when, stripped of blanks, it starts with a
  fence, and otherwise between a fence line carrying \<^verbatim>\<open>details.language\<close> (\<^verbatim>\<open>python\<close>
  when absent) and a closing fence.
\<close>

theorem coding_sections_in_order:
  assumes ptype: "map_of problem_info ''problem_type'' = Some (JStr ''coding'')"
    and details: "dict_get (JDict problem_info) ''details'' (JDict []) = Inr (JDict details)"
    and sol: "map_of solution_data ''solution'' = Some (JDict sol)"
    and steps: "map_of sol ''algorithm_steps'' = Some (JStr steps)" "steps \<noteq> []"
    and ecs: "map_of sol ''edge_cases'' = Some (JList (map JStr ecs))" "ecs \<noteq> []"
    and code: "map_of sol ''code'' = Some (JStr code)" "code \<noteq> []"
    and tc: "map_of sol ''time_complexity'' = Some (JStr tc)" "tc \<noteq> []"
    and sc: "map_of sol ''space_complexity'' = Some (JStr sc)" "sc \<noteq> []"
  shows "format_solution_markdown str_of (JDict solution_data) (JDict problem_info) =
         Inr (''**Type:** `CODING`'' @ nl @ nl
              @ ''### Algorithm Steps'' @ nl @ steps @ nl @ nl
              @ ''### Edge Cases'' @ nl @ concat (map (\<lambda>ec. ''- '' @ ec @ nl) ecs) @ nl
              @ ''### Code Section'' @ nl
              @ (if startswith (strip code) ''```'' then code
                 else ''``` ''
                      @ fmt str_of (case map_of details ''language'' of
                                      Some l \<Rightarrow> l | None \<Rightarrow> JStr ''python'')
                      @ nl @ code @ nl @ ''```'')
              @ nl @ nl
              @ ''### Complexity'' @ nl @ ''- **Time**: '' @ tc @ nl
              @ ''- **Space**: '' @ sc @ nl @ nl)"
proof -
  have s1: "algorithm_steps_section str_of (JDict sol) =
           Inr (''### Algorithm Steps'' @ nl @ steps @ nl @ nl)"
    using steps by (rule algorithm_steps_present)
  have s2: "edge_cases_section str_of (JDict sol) =
           Inr (''### Edge Cases'' @ nl @ concat (map (\<lambda>ec. ''- '' @ ec @ nl) ecs) @ nl)"
    using ecs by (rule edge_cases_present)
  note s3 = code_present [OF code details, of str_of]
  note s4 = complexity_present [OF tc sc, of str_of]
  show ?thesis
    unfolding format_solution_markdown_def
    by (simp add: ptype sol then_do_Inr upper_coding s1 s2 s3 s4 Let_def del: append_assoc)
qed


theorem coding_sections_in_order_witness:
  "format_solution_markdown (\<lambda>v. ''?'')
     (JDict [(''solution'', JDict [(''algorithm_steps'', JStr ''1. scan''),
                                   (''code'', JStr ''x = 1''),
                                   (''time_complexity'', JStr ''O(n)''),
                                   (''space_complexity'', JStr ''O(1)''),
                                   (''edge_cases'', JList (map JStr [''empty'', ''big'']))])])
     (JDict [(''problem_type'', JStr ''coding''),
             (''details'', JDict [(''language'', JStr ''js'')])]) =
   Inr (''**Type:** `CODING`'' @ nl @ nl
        @ ''### Algorithm Steps'' @ nl @ ''1. scan'' @ nl @ nl
        @ ''### Edge Cases'' @ nl @ ''- empty'' @ nl @ ''- big'' @ nl @ nl
        @ ''### Code Section'' @ nl @ ''``` js'' @ nl @ ''x = 1'' @ nl @ ''```'' @ nl @ nl
        @ ''### Complexity'' @ nl @ ''- **Time**: O(n)'' @ nl @ ''- **Space**: O(1)'' @ nl @ nl)"
proof -
  let ?sol = "[(''algorithm_steps'', JStr ''1. scan''), (''code'', JStr ''x = 1''),
               (''time_complexity'', JStr ''O(n)''), (''space_complexity'', JStr ''O(1)''),
               (''edge_cases'', JList (map JStr [''empty'', ''big'']))]"
  let ?pinfo = "[(''problem_type'', JStr ''coding''),
                 (''details'', JDict [(''language'', JStr ''js'')])]"
  have a: "map_of ?pinfo ''problem_type'' = Some (JStr ''coding'')" by simp
  have b: "dict_get (JDict ?pinfo) ''details'' (JDict []) = Inr (JDict [(''language'', JStr ''js'')])"
    by simp
  have c: "map_of [(''solution'', JDict ?sol)] ''solution'' = Some (JDict ?sol)" by simp
  have d: "map_of ?sol ''algorithm_steps'' = Some (JStr ''1. scan'')" "''1. scan'' \<noteq> []"
    by simp_all
  have e: "map_of ?sol ''edge_cases'' = Some (JList (map JStr [''empty'', ''big'']))"
    "[''empty'', ''big''] \<noteq> []" by simp_all
  have f: "map_of ?sol ''code'' = Some (JStr ''x = 1'')" "''x = 1'' \<noteq> []" by simp_all
  have g: "map_of ?sol ''time_complexity'' = Some (JStr ''O(n)'')" "''O(n)'' \<noteq> []"
    by simp_all
  have h: "map_of ?sol ''space_complexity'' = Some (JStr ''O(1)'')" "''O(1)'' \<noteq> []"
    by simp_all
  have i: "\<not> startswith (strip ''x = 1'') ''```''"
    by (simp add: strip_def is_space_def)
  from coding_sections_in_order [OF a b c d e f g h, of "\<lambda>v. ''?''"] i
  show ?thesis by (simp add: fmt_def)
qed

text \<open>
  Claim C5. For the type \<^verbatim>\<open>math\<close> and the solution \<open>{answer: "4", reasoning: "2+2"}\<close>
  the renderer returns the badge, the Analysis section with the reasoning and the
  Solution section with the answer, in this order, and the text has none of the four
  headers of the coding layout.
\<close>

theorem math_two_sections:
  "(let out = ''**Type:** `MATH`'' @ nl @ nl
              @ ''### Analysis'' @ nl @ ''2+2'' @ nl @ nl
              @ ''### Solution'' @ nl @ ''4''
    in format_solution_markdown str_of
         (JDict [(''solution'', JDict [(''answer'', JStr ''4''), (''reasoning'', JStr ''2+2'')])])
         (JDict ((''problem_type'', JStr ''math'') # rest)) = Inr out
       \<and> \<not> contains out ''### Algorithm Steps''
       \<and> \<not> contains out ''### Edge Cases''
       \<and> \<not> contains out ''### Code Section''
       \<and> \<not> contains out ''### Complexity'')"
proof -
  have r: "format_solution_markdown str_of
         (JDict [(''solution'', JDict [(''answer'', JStr ''4''), (''reasoning'', JStr ''2+2'')])])
         (JDict ((''problem_type'', JStr ''math'') # rest)) =
        Inr (''**Type:** `MATH`'' @ nl @ nl
              @ ''### Analysis'' @ nl @ ''2+2'' @ nl @ nl
              @ ''### Solution'' @ nl @ ''4'')"
    by (simp add: format_solution_markdown_def answer_sections_def then_do_Inr upper_math
        fmt_JStr Let_def)
  have c: "\<not> contains (''**Type:** `MATH`'' @ nl @ nl
              @ ''### Analysis'' @ nl @ ''2+2'' @ nl @ nl
              @ ''### Solution'' @ nl @ ''4'') ''### Algorithm Steps''"
      "\<not> contains (''**Type:** `MATH`'' @ nl @ nl
              @ ''### Analysis'' @ nl @ ''2+2'' @ nl @ nl
              @ ''### Solution'' @ nl @ ''4'') ''### Edge Cases''"
      "\<not> contains (''**Type:** `MATH`'' @ nl @ nl
              @ ''### Analysis'' @ nl @ ''2+2'' @ nl @ nl
              @ ''### Solution'' @ nl @ ''4'') ''### Code Section''"
      "\<not> contains (''**Type:** `MATH`'' @ nl @ nl
              @ ''### Analysis'' @ nl @ ''2+2'' @ nl @ nl
              @ ''### Solution'' @ nl @ ''4'') ''### Complexity''"
    by (simp_all add: contains_def find_def nl_def)
  from r c show ?thesis by (simp only: Let_def simp_thms)
qed

section \<open>Properties of the encoder\<close>

lemma encode_toon_cases:
  "encode_toon import_encode dumps data =
     (case then_do import_encode (\<lambda>encode. encode data) of
        Inr t \<Rightarrow> Inr t
      | Inl e \<Rightarrow> dumps data)"
  by (simp add: encode_toon_def try_except_def split: sum.splits)

text \<open>
  Claim C7, as amended. When \<^verbatim>\<open>json.dumps\<close> succeeds on the data, \<open>encode_toon\<close> returns a
  text whatever the package does, and that text is the JSON serialization as soon as the
  import or the TOON encoding raises. \<open>decode_toon\<close> maps the serialization back to the
  data when the package cannot be imported (\<^verbatim>\<open>ImportError\<close>) and \<^verbatim>\<open>json.loads\<close> inverts
  \<^verbatim>\<open>json.dumps\<close> on it.
\<close>

theorem encode_toon_fallback:
  assumes "dumps data = Inr s"
  shows "(\<exists>t. encode_toon import_encode dumps data = Inr t)
       \<and> (import_encode = Inl e \<longrightarrow> encode_toon import_encode dumps data = Inr s)
       \<and> (import_encode = Inr encode \<and> encode data = Inl e \<longrightarrow>
            encode_toon import_encode dumps data = Inr s)
       \<and> (import_decode = Inl e' \<and> exn_kind e' = ImportError \<and> loads s = Inr data \<longrightarrow>
            decode_toon import_decode loads s = Inr data)"
  using assms
  by (auto simp: encode_toon_cases decode_toon_def try_except_def then_do_def split: sum.splits)

theorem encode_toon_fallback_witness:
  "encode_toon (Inl no_toon_format) dumps_atom (JBool True) = Inr ''true''
   \<and> encode_toon (Inr failing_encode) dumps_atom (JBool True) = Inr ''true''
   \<and> decode_toon (Inl no_toon_format) (json_loads scan_atom) ''true'' = Inr (JBool True)"
proof -
  have d: "dumps_atom (JBool True) = Inr ''true''"
    by (simp add: dumps_atom_def)
  have f: "failing_encode (JBool True) = Inl (PyExn OtherError ''cannot encode'')"
    by (simp add: failing_encode_def)
  have l: "json_loads scan_atom ''true'' = Inr (JBool True)"
    by (simp add: json_loads_def starts_value_def json_ws_def scan_atom_def)
  have k: "exn_kind no_toon_format = ImportError"
    by (simp add: no_toon_format_def)
  from encode_toon_fallback [where dumps = dumps_atom and data = "JBool True" and s = "''true''"
      and import_encode = "Inl no_toon_format" and e = no_toon_format
      and import_decode = "Inl no_toon_format" and e' = no_toon_format
      and loads = "json_loads scan_atom"]
    encode_toon_fallback [where dumps = dumps_atom and data = "JBool True" and s = "''true''"
      and import_encode = "Inr failing_encode" and encode = failing_encode
      and e = "PyExn OtherError ''cannot encode''"]
    d f l k
  show ?thesis by simp
qed

text \<open>
  The round trip of claim C7 fails when the package is present and raises: the encoder
  falls back to the serialization \<^verbatim>\<open>true\<close> of \<^verbatim>\<open>True\<close>, and the decoder answers \<^verbatim>\<open>None\<close>.
\<close>

theorem encode_decode_roundtrip_counterexample:
  "encode_toon (Inr failing_encode) dumps_atom (JBool True) = Inr ''true''
   \<and> decode_toon (Inr failing_decode) (json_loads scan_atom) ''true'' = Inr JNull
   \<and> JNull \<noteq> JBool True"
  by (simp add: encode_toon_def decode_toon_def try_except_def then_do_def failing_encode_def
      failing_decode_def dumps_atom_def)

text \<open>
  Claim C8, as amended. \<open>decode_toon\<close> returns the TOON decoding when it succeeds; when the
  import or the decoding raises anything but \<^verbatim>\<open>ImportError\<close> it returns \<^verbatim>\<open>None\<close>; when the
  package cannot be imported it returns the JSON parse of the text, if that succeeds.
\<close>

theorem decode_toon_policy:
  "(import_decode = Inr decode \<and> decode t = Inr v \<longrightarrow>
      decode_toon import_decode loads t = Inr v)
   \<and> (import_decode = Inr decode \<and> decode t = Inl e \<and> exn_kind e \<noteq> ImportError \<longrightarrow>
      decode_toon import_decode loads t = Inr JNull)
   \<and> (import_decode = Inl e \<and> exn_kind e \<noteq> ImportError \<longrightarrow>
      decode_toon import_decode loads t = Inr JNull)
   \<and> (import_decode = Inl e \<and> exn_kind e = ImportError \<and> loads t = Inr v \<longrightarrow>
      decode_toon import_decode loads t = Inr v)"
  by (simp add: decode_toon_def try_except_def then_do_def)

theorem decode_toon_policy_witness:
  "decode_toon (Inr echo_decode) (json_loads scan_atom) ''true'' = Inr (JStr ''true'')
   \<and> decode_toon (Inr failing_decode) (json_loads scan_atom) ''true'' = Inr JNull
   \<and> decode_toon (Inl (PyExn OtherError ''broken package'')) (json_loads scan_atom) ''true'' = Inr JNull
   \<and> decode_toon (Inl no_toon_format) (json_loads scan_atom) ''true'' = Inr (JBool True)"
proof -
  have l: "json_loads scan_atom ''true'' = Inr (JBool True)"
    by (simp add: json_loads_def starts_value_def json_ws_def scan_atom_def)
  have k: "exn_kind no_toon_format = ImportError"
    by (simp add: no_toon_format_def)
  have a: "echo_decode ''true'' = Inr (JStr ''true'')"
    by (simp add: echo_decode_def)
  have b: "failing_decode ''true'' = Inl (PyExn OtherError ''cannot decode'')"
    by (simp add: failing_decode_def)
  from decode_toon_policy [where import_decode = "Inr echo_decode" and decode = echo_decode
      and t = "''true''" and v = "JStr ''true''" and loads = "json_loads scan_atom"]
    decode_toon_policy [where import_decode = "Inr failing_decode" and decode = failing_decode
      and t = "''true''" and e = "PyExn OtherError ''cannot decode''"
      and loads = "json_loads scan_atom"]
    decode_toon_policy [where import_decode = "Inl (PyExn OtherError ''broken package'')"
      and t = "''true''" and e = "PyExn OtherError ''broken package''"
      and loads = "json_loads scan_atom"]
    decode_toon_policy [where import_decode = "Inl no_toon_format" and t = "''true''"
      and v = "JBool True" and e = no_toon_format and loads = "json_loads scan_atom"]
    a b l k
  show ?thesis by simp
qed

text \<open>
  Claim C8 fails: a failing TOON decoding gives \<^verbatim>\<open>None\<close> although the text is JSON, and
  with the package missing a text that is not JSON makes \<open>decode_toon\<close> raise.
\<close>

theorem decode_toon_fallback_counterexample:
  "decode_toon (Inr failing_decode) (json_loads scan_atom) ''true'' = Inr JNull
   \<and> json_loads scan_atom ''true'' = Inr (JBool True)
   \<and> decode_toon (Inl no_toon_format) (json_loads scan_atom) ''not json at all''
       = Inl (PyExn JSONDecodeError ''Expecting value'')"
  by (simp add: decode_toon_def try_except_def then_do_def failing_decode_def no_toon_format_def
      json_loads_def starts_value_def json_ws_def scan_atom_def)

section \<open>Properties of the providers\<close>


lemma gemini_request_upload_raises:
  assumes "given audio_file" and "upload_file m (items audio_file) = Inl e"
  shows "gemini_request m model_name text images audio_file system_prompt = Inl e"
  using assms by (simp add: gemini_request_def gemini_parts_def then_do_def Let_def)

lemma gemini_request_text_raises:
  assumes "gemini_parts m text images audio_file system_prompt = Inr parts"
    and "generate_content m parts = Inr r" and "response_text r = Inl e"
  shows "gemini_request m model_name text images audio_file system_prompt = Inl e"
  using assms by (simp add: gemini_request_def then_do_def)








lemma error_chunk_last:
  "snd run = Some e \<Longrightarrow>
     fst (error_chunk run) = fst run @ [nl @ nl @ ''Error: '' @ exn_str e]"
  by (simp add: error_chunk_def)

lemma error_chunk_none: "snd run = None \<Longrightarrow> error_chunk run = run"
  by (simp add: error_chunk_def)

















section \<open>Properties of the schema-constrained call\<close>






lemma catch_all_returns:
  "\<exists>v. try_except body (\<lambda>e. Some (Inr (h e))) = Inr v"
  by (cases body) (simp_all add: try_except_def)




section \<open>Properties of the pipeline\<close>

lemma pipeline_exception_falls_back:
  assumes "given images"
    and "smart_pipeline str_of import_encode dumps schema_call model_name prompt images = Inl e"
  shows "smart_send_message_with str_of import_encode dumps schema_call plain model_name prompt
           images = plain"
  using assms by (simp add: smart_send_message_with_def try_except_def)

lemma stage1_raises_pipeline_raises:
  assumes "step_classify_and_extract schema_call prompt images = Inl e"
  shows "smart_pipeline str_of import_encode dumps schema_call model_name prompt images = Inl e"
  using assms by (simp add: smart_pipeline_def then_do_def)

lemma gemini_reply_metadata:
  assumes "gemini_send_message m model_name prompt images audio_file system_prompt = Inr r"
  shows "map_of (metadata r) ''problem_info'' = None
         \<and> map_of (metadata r) ''raw_solution'' = None"
proof (cases "gemini_request m model_name prompt images audio_file system_prompt")
  case (Inl e)
  with assms show ?thesis
    by (auto simp: gemini_send_message_def try_except_def error_reply_def)
next
  case (Inr r')
  with assms have "r = r'"
    by (simp add: gemini_send_message_def try_except_def)
  with Inr show ?thesis
    by (auto simp: gemini_request_def then_do_def split: sum.splits)
qed

lemma answer_sections_returns:
  "\<exists>t. answer_sections str_of (JDict sol) = Inr t"
  by (simp add: answer_sections_def then_do_def)

lemma non_coding_render_returns:
  assumes "map_of pinfo ''problem_type'' = Some (JStr ptype)" and "ptype \<noteq> ''coding''"
    and "map_of sd ''solution'' = Some (JDict sol)"
  shows "\<exists>md. format_solution_markdown str_of (JDict sd) (JDict pinfo) = Inr md"
proof -
  obtain t where "answer_sections str_of (JDict sol) = Inr t"
    using answer_sections_returns by blast
  with assms show ?thesis
    by (simp add: format_solution_markdown_def then_do_def Let_def)
qed

lemma pipeline_rendered:
  assumes "given images"
    and "step_classify_and_extract schema_call prompt images = Inr problem_info"
    and "step_generate_solution import_encode dumps schema_call problem_info = Inr solution_data"
    and "format_solution_markdown str_of solution_data problem_info = Inr md"
  shows "smart_send_message_with str_of import_encode dumps schema_call plain model_name prompt
           images =
         Inr \<lparr>response = md,
              metadata = [(''model'', JStr model_name), (''problem_info'', problem_info),
                          (''raw_solution'', solution_data)]\<rparr>"
  using assms
  by (simp add: smart_send_message_with_def smart_pipeline_def then_do_def try_except_def)

lemma stage1_non_mapping_falls_back:
  assumes "given images"
    and "step_classify_and_extract schema_call prompt images = Inr v"
    and "\<forall>kvs. v \<noteq> JDict kvs"
  shows "smart_send_message_with str_of import_encode dumps schema_call plain model_name prompt
           images = plain"
proof -
  from assms(3) have "\<exists>e. dict_get v ''problem_type'' (JStr ''general'') = Inl e"
    by (cases v) simp_all
  then obtain e where "dict_get v ''problem_type'' (JStr ''general'') = Inl e" ..
  with assms(2)
  have "smart_pipeline str_of import_encode dumps schema_call model_name prompt images = Inl e"
    by (simp add: smart_pipeline_def step_generate_solution_def then_do_def)
  with assms(1) show ?thesis
    by (rule pipeline_exception_falls_back)
qed

text \<open>
  Claim C1, as amended. Let an image be present. If the schema call of stage 1 raises,
  \<open>send_message\<close> returns exactly what the plain call returns, and that reply has neither
  \<open>problem_info\<close> nor \<open>raw_solution\<close> in its metadata. If stage 1 returns a mapping whose
  \<open>problem_type\<close> is a string outside the four-way enum, and stage 2 returns a mapping
  with a solution mapping, there is no fallback: \<open>send_message\<close> returns the rendered
  document, with \<open>problem_info\<close> and \<open>raw_solution\<close> in its metadata.
\<close>

theorem stage1_exception_degrades:
  assumes "given images"
  shows "(step_classify_and_extract schema_call prompt images = Inl e \<longrightarrow>
            smart_send_message_with str_of import_encode dumps schema_call
              (gemini_send_message m model_name prompt images audio_file system_prompt)
              model_name prompt images =
            gemini_send_message m model_name prompt images audio_file system_prompt
          \<and> (\<exists>r. smart_send_message_with str_of import_encode dumps schema_call
                    (gemini_send_message m model_name prompt images audio_file system_prompt)
                    model_name prompt images = Inr r
                  \<and> map_of (metadata r) ''problem_info'' = None
                  \<and> map_of (metadata r) ''raw_solution'' = None))
       \<and> (step_classify_and_extract schema_call prompt images = Inr (JDict pinfo)
          \<and> map_of pinfo ''problem_type'' = Some (JStr ptype)
          \<and> ptype \<notin> set [''coding'', ''multiple_choice'', ''math'', ''general'']
          \<and> step_generate_solution import_encode dumps schema_call (JDict pinfo) = Inr (JDict sd)
          \<and> map_of sd ''solution'' = Some (JDict sol) \<longrightarrow>
          (\<exists>md. format_solution_markdown str_of (JDict sd) (JDict pinfo) = Inr md
             \<and> smart_send_message_with str_of import_encode dumps schema_call
                 (gemini_send_message m model_name prompt images audio_file system_prompt)
                 model_name prompt images =
               Inr \<lparr>response = md,
                    metadata = [(''model'', JStr model_name), (''problem_info'', JDict pinfo),
                                (''raw_solution'', JDict sd)]\<rparr>))"
proof (intro conjI impI)
  let ?plain = "gemini_send_message m model_name prompt images audio_file system_prompt"
  assume s: "step_classify_and_extract schema_call prompt images = Inl e"
  show f: "smart_send_message_with str_of import_encode dumps schema_call ?plain
             model_name prompt images = ?plain"
    using assms stage1_raises_pipeline_raises [OF s]
    by (rule pipeline_exception_falls_back)
  have "\<exists>r. ?plain = Inr r"
    unfolding gemini_send_message_def by (rule catch_all_returns)
  then obtain r where r: "?plain = Inr r" ..
  from gemini_reply_metadata [OF r] f r
  show "\<exists>r. smart_send_message_with str_of import_encode dumps schema_call ?plain
                    model_name prompt images = Inr r
                  \<and> map_of (metadata r) ''problem_info'' = None
                  \<and> map_of (metadata r) ''raw_solution'' = None"
    by simp
next
  let ?plain = "gemini_send_message m model_name prompt images audio_file system_prompt"
  assume a: "step_classify_and_extract schema_call prompt images = Inr (JDict pinfo)
          \<and> map_of pinfo ''problem_type'' = Some (JStr ptype)
          \<and> ptype \<notin> set [''coding'', ''multiple_choice'', ''math'', ''general'']
          \<and> step_generate_solution import_encode dumps schema_call (JDict pinfo) = Inr (JDict sd)
          \<and> map_of sd ''solution'' = Some (JDict sol)"
  then have "ptype \<noteq> ''coding''" by auto
  with a obtain md where md: "format_solution_markdown str_of (JDict sd) (JDict pinfo) = Inr md"
    using non_coding_render_returns [of pinfo ptype sd sol str_of] by blast
  from a have s1: "step_classify_and_extract schema_call prompt images = Inr (JDict pinfo)"
    and s2: "step_generate_solution import_encode dumps schema_call (JDict pinfo) = Inr (JDict sd)"
    by simp_all
  from pipeline_rendered [OF assms s1 s2 md, of ?plain model_name] md
  show "\<exists>md. format_solution_markdown str_of (JDict sd) (JDict pinfo) = Inr md
             \<and> smart_send_message_with str_of import_encode dumps schema_call ?plain
                 model_name prompt images =
               Inr \<lparr>response = md,
                    metadata = [(''model'', JStr model_name), (''problem_info'', JDict pinfo),
                                (''raw_solution'', JDict sd)]\<rparr>"
    by blast
qed

theorem stage1_exception_degrades_witness:
  "smart_send_message_with str_sample (Inr sample_encode) dumps_atom raising_schema_call
     (gemini_send_message gemini_essay ''gemini-2.5-flash-lite'' ''solve'' (Some [Image 0])
        None None)
     ''gemini-2.5-flash-lite'' ''solve'' (Some [Image 0]) =
   Inr \<lparr>response = essay_text,
        metadata = [(''model'', JStr ''gemini-2.5-flash-lite''),
                    (''finish_reason'', JStr ''STOP'')]\<rparr>
   \<and> smart_send_message_with str_sample (Inr sample_encode) dumps_atom poem_schema_call
     (gemini_send_message gemini_essay ''gemini-2.5-flash-lite'' ''solve'' (Some [Image 0])
        None None)
     ''gemini-2.5-flash-lite'' ''solve'' (Some [Image 0]) =
   Inr \<lparr>response = ''**Type:** `POEM`'' @ nl @ nl @ ''### Solution'' @ nl @ ''42'',
        metadata = [(''model'', JStr ''gemini-2.5-flash-lite''),
                    (''problem_info'', JDict [(''problem_type'', JStr ''poem'')]),
                    (''raw_solution'', JDict [(''solution'', JDict [(''answer'', JStr ''42'')])])]\<rparr>"
proof -
  have g: "given (Some [Image 0])"
    by (simp add: given_def)
  have s: "step_classify_and_extract raising_schema_call ''solve'' (Some [Image 0]) = Inl unavailable"
    by (simp add: step_classify_and_extract_def raising_schema_call_def)
  have p: "gemini_send_message gemini_essay ''gemini-2.5-flash-lite'' ''solve'' (Some [Image 0])
             None None =
           Inr \<lparr>response = essay_text,
                metadata = [(''model'', JStr ''gemini-2.5-flash-lite''),
                            (''finish_reason'', JStr ''STOP'')]\<rparr>"
    by (simp add: gemini_send_message_def gemini_request_def gemini_parts_def given_def items_def
        gemini_essay_def then_do_def try_except_def)
  have s1: "step_classify_and_extract poem_schema_call ''solve'' (Some [Image 0]) =
              Inr (JDict [(''problem_type'', JStr ''poem'')])"
    by (simp add: step_classify_and_extract_def poem_schema_call_def given_def)
  have s2: "step_generate_solution (Inr sample_encode) dumps_atom poem_schema_call
              (JDict [(''problem_type'', JStr ''poem'')]) =
            Inr (JDict [(''solution'', JDict [(''answer'', JStr ''42'')])])"
    by (simp add: step_generate_solution_def then_do_def encode_toon_def try_except_def
        sample_encode_def poem_schema_call_def given_def)
  have m: "map_of [(''problem_type'', JStr ''poem'')] ''problem_type'' = Some (JStr ''poem'')"
    "''poem'' \<notin> set [''coding'', ''multiple_choice'', ''math'', ''general'']"
    "map_of [(''solution'', JDict [(''answer'', JStr ''42'')])] ''solution'' =
       Some (JDict [(''answer'', JStr ''42'')])"
    by simp_all
  have f: "format_solution_markdown str_sample
             (JDict [(''solution'', JDict [(''answer'', JStr ''42'')])])
             (JDict [(''problem_type'', JStr ''poem'')]) =
           Inr (''**Type:** `POEM`'' @ nl @ nl @ ''### Solution'' @ nl @ ''42'')"
    by (simp add: format_solution_markdown_def answer_sections_def then_do_def
      upper_def upper_char_def fmt_def Let_def)
  from stage1_exception_degrades [OF g, where schema_call = raising_schema_call
      and prompt = "''solve''" and e = unavailable and str_of = str_sample
      and import_encode = "Inr sample_encode" and dumps = dumps_atom and m = gemini_essay
      and model_name = "''gemini-2.5-flash-lite''" and audio_file = None
      and system_prompt = None] s p
  have one: "smart_send_message_with str_sample (Inr sample_encode) dumps_atom raising_schema_call
     (gemini_send_message gemini_essay ''gemini-2.5-flash-lite'' ''solve'' (Some [Image 0])
        None None)
     ''gemini-2.5-flash-lite'' ''solve'' (Some [Image 0]) =
   Inr \<lparr>response = essay_text,
        metadata = [(''model'', JStr ''gemini-2.5-flash-lite''),
                    (''finish_reason'', JStr ''STOP'')]\<rparr>"
    by simp
  from stage1_exception_degrades [OF g, where schema_call = poem_schema_call
      and prompt = "''solve''" and str_of = str_sample
      and import_encode = "Inr sample_encode" and dumps = dumps_atom and m = gemini_essay
      and model_name = "''gemini-2.5-flash-lite''" and audio_file = None
      and system_prompt = None and pinfo = "[(''problem_type'', JStr ''poem'')]"
      and ptype = "''poem''" and sd = "[(''solution'', JDict [(''answer'', JStr ''42'')])]"
      and sol = "[(''answer'', JStr ''42'')]"] s1 s2 m f
  have two: "smart_send_message_with str_sample (Inr sample_encode) dumps_atom poem_schema_call
     (gemini_send_message gemini_essay ''gemini-2.5-flash-lite'' ''solve'' (Some [Image 0])
        None None)
     ''gemini-2.5-flash-lite'' ''solve'' (Some [Image 0]) =
   Inr \<lparr>response = ''**Type:** `POEM`'' @ nl @ nl @ ''### Solution'' @ nl @ ''42'',
        metadata = [(''model'', JStr ''gemini-2.5-flash-lite''),
                    (''problem_info'', JDict [(''problem_type'', JStr ''poem'')]),
                    (''raw_solution'', JDict [(''solution'', JDict [(''answer'', JStr ''42'')])])]\<rparr>"
    by simp
  from one two show ?thesis ..
qed

lemma essay_parse:
  "parse_structured_output (json_loads scan_essay) essay_text = Inr essay_value"
proof -
  have c: "json_candidate essay_text = essay_text"
    by (simp add: json_candidate_def contains_def find_def essay_text_def)
  have l: "json_loads scan_essay essay_text = Inr essay_value"
    by (simp add: json_loads_def scan_essay_def) (simp add: essay_text_def json_ws_def starts_value_def)
  show ?thesis
    by (simp add: parse_structured_output_candidate c l)
qed

lemma essay_schema_call:
  "gemini_send_with_json_output str_of (json_loads scan_essay) gemini_essay prompt json_schema
     images = Inr essay_value"
  by (simp add: gemini_send_with_json_output_def gemini_json_request_def Let_def gemini_essay_def
      then_do_def essay_parse try_except_def)

lemma essay_render:
  "format_solution_markdown str_of essay_value essay_value =
     Inr (''**Type:** `ESSAY`'' @ nl @ nl @ ''### Analysis'' @ nl @ ''R'' @ nl @ nl
          @ ''### Solution'' @ nl @ ''A'')"
  by (simp add: format_solution_markdown_def answer_sections_def essay_value_def then_do_def
      upper_def upper_char_def fmt_def Let_def)

text \<open>
  Claim C1 fails on a \<open>problem_type\<close> outside the enum: with a backend that answers
  \<^verbatim>\<open>essay\<close>, stage 1 returns that type, and \<open>send_message\<close> returns the rendered document
  with both stage results in its metadata, not the reply of the plain call.
\<close>

theorem out_of_enum_type_counterexample:
  "step_classify_and_extract
     (gemini_send_with_json_output str_sample (json_loads scan_essay) gemini_essay)
     ''solve'' (Some [Image 0]) = Inr essay_value
   \<and> dict_get essay_value ''problem_type'' (JStr ''general'') = Inr (JStr ''essay'')
   \<and> smart_send_message str_sample (json_loads scan_essay) (Inr sample_encode) dumps_atom
       gemini_essay ''gemini-2.5-flash-lite'' ''solve'' (Some [Image 0]) None None =
     Inr \<lparr>response = ''**Type:** `ESSAY`'' @ nl @ nl @ ''### Analysis'' @ nl @ ''R'' @ nl @ nl
                       @ ''### Solution'' @ nl @ ''A'',
          metadata = [(''model'', JStr ''gemini-2.5-flash-lite''),
                      (''problem_info'', essay_value),
                      (''raw_solution'', essay_value)]\<rparr>
   \<and> gemini_send_message gemini_essay ''gemini-2.5-flash-lite'' ''solve'' (Some [Image 0])
       None None =
     Inr \<lparr>response = essay_text,
          metadata = [(''model'', JStr ''gemini-2.5-flash-lite''),
                      (''finish_reason'', JStr ''STOP'')]\<rparr>"
proof -
  have a: "step_classify_and_extract
     (gemini_send_with_json_output str_sample (json_loads scan_essay) gemini_essay)
     ''solve'' (Some [Image 0]) = Inr essay_value"
    by (simp add: step_classify_and_extract_def essay_schema_call)
  have b: "dict_get essay_value ''problem_type'' (JStr ''general'') = Inr (JStr ''essay'')"
    by (simp add: essay_value_def)
  have e: "encode_toon (Inr sample_encode) dumps_atom essay_value = Inr ''context''"
    by (simp add: encode_toon_def then_do_def sample_encode_def try_except_def)
  have s2: "step_generate_solution (Inr sample_encode) dumps_atom
             (gemini_send_with_json_output str_sample (json_loads scan_essay) gemini_essay)
             essay_value = Inr essay_value"
    by (simp add: step_generate_solution_def b e then_do_Inr essay_schema_call)
  have p: "smart_pipeline str_sample (Inr sample_encode) dumps_atom
             (gemini_send_with_json_output str_sample (json_loads scan_essay) gemini_essay)
             ''gemini-2.5-flash-lite'' ''solve'' (Some [Image 0]) =
           Inr \<lparr>response = ''**Type:** `ESSAY`'' @ nl @ nl @ ''### Analysis'' @ nl @ ''R'' @ nl @ nl
                       @ ''### Solution'' @ nl @ ''A'',
          metadata = [(''model'', JStr ''gemini-2.5-flash-lite''),
                      (''problem_info'', essay_value),
                      (''raw_solution'', essay_value)]\<rparr>"
    by (simp only: smart_pipeline_def a s2 essay_render then_do_Inr)
  have c: "smart_send_message str_sample (json_loads scan_essay) (Inr sample_encode) dumps_atom
       gemini_essay ''gemini-2.5-flash-lite'' ''solve'' (Some [Image 0]) None None =
     Inr \<lparr>response = ''**Type:** `ESSAY`'' @ nl @ nl @ ''### Analysis'' @ nl @ ''R'' @ nl @ nl
                       @ ''### Solution'' @ nl @ ''A'',
          metadata = [(''model'', JStr ''gemini-2.5-flash-lite''),
                      (''problem_info'', essay_value),
                      (''raw_solution'', essay_value)]\<rparr>"
    by (simp add: smart_send_message_def smart_send_message_with_def given_def p try_except_def
        del: append_assoc)
  have d: "gemini_send_message gemini_essay ''gemini-2.5-flash-lite'' ''solve'' (Some [Image 0])
             None None =
           Inr \<lparr>response = essay_text,
                metadata = [(''model'', JStr ''gemini-2.5-flash-lite''),
                            (''finish_reason'', JStr ''STOP'')]\<rparr>"
    by (simp add: gemini_send_message_def gemini_request_def gemini_parts_def given_def items_def
        gemini_essay_def then_do_def try_except_def)
  from a b c d show ?thesis by (intro conjI)
qed

end
